theory Spec2Isabelle
  imports Main "HOL-Library.Multiset"
begin

section \<open>Data model (shared/schema.ts)\<close>

text \<open>
  The enums of \<^verbatim>\<open>shared/schema.ts\<close>. Document statuses keep their names; workflow
  states, task types and task states share names with them in the source
  (\<^verbatim>\<open>DRAFT\<close>, \<^verbatim>\<open>REJECTED\<close>, \<^verbatim>\<open>REVIEW\<close>, \<^verbatim>\<open>DONE\<close>) and carry a prefix here.
\<close>

datatype user_role = ADMIN | OFFICER | REVIEWER | APPROVER | VIEWER

datatype document_status =
  DRAFT | IN_REVIEW | PENDING_SIGNATURE | APPROVED | REJECTED | ARCHIVED

datatype workflow_state =
  W_DRAFT | W_REVIEW | W_SIGN | W_APPROVAL | W_DONE | W_REJECTED

datatype task_type = T_REVIEW | T_SIGN | T_APPROVE

datatype task_state = OPEN | DONE | CANCELLED

text \<open>
  Rows of the tables. A column that is not declared \<^verbatim>\<open>notNull\<close> has an option type
  (\<open>None\<close> is SQL NULL, JavaScript \<^verbatim>\<open>null\<close>/\<^verbatim>\<open>undefined\<close>). Timestamps are
  milliseconds since the epoch. Field names are the source's; a field name that occurs
  in several tables (\<^verbatim>\<open>id\<close>, \<^verbatim>\<open>docId\<close>, \<^verbatim>\<open>createdAt\<close>, ...) carries the
  initial of its table.
\<close>

record user =
  u_id :: string
  email :: "string option"
  firstName :: "string option"
  lastName :: "string option"
  roles :: "user_role list option"
  u_officeId :: "string option"

record participants =
  editors :: "string list option"
  reviewers :: "string list option"
  approvers :: "string list option"
  viewers :: "string list option"

record acl =
  acl_read :: "string list option"
  acl_write :: "string list option"

record document =
  d_id :: string
  title :: string
  content :: "string option"
  ownerUid :: string
  departmentId :: "string option"
  status :: "document_status option"
  currentVersionId :: "string option"
  tags :: "string list option"
  d_createdAt :: "int option"
  d_updatedAt :: "int option"
  dueAt :: "int option"
  participants :: "participants option"
  d_acl :: "acl option"

section \<open>Access control (server/routes.ts, helper functions)\<close>

text \<open>
  \<^verbatim>\<open>user.roles?.includes(r)\<close>: false when \<^verbatim>\<open>roles\<close> is null.
\<close>

definition hasRole :: "user \<Rightarrow> user_role \<Rightarrow> bool" where
  "hasRole u r = (case roles u of None \<Rightarrow> False | Some rs \<Rightarrow> r \<in> set rs)"

text \<open>
  \<^verbatim>\<open>participants.editors || []\<close> and its siblings, after
  \<^verbatim>\<open>const participants = document.participants || {}\<close>.
\<close>

definition listOf :: "(participants \<Rightarrow> string list option) \<Rightarrow> document \<Rightarrow> string list" where
  "listOf sel d =
     (case participants d of
        None \<Rightarrow> []
      | Some p \<Rightarrow> (case sel p of None \<Rightarrow> [] | Some xs \<Rightarrow> xs))"

definition canAccessDocument :: "document \<Rightarrow> user option \<Rightarrow> bool" where
  "canAccessDocument d user =
     (case user of
        None \<Rightarrow> False
      | Some u \<Rightarrow>
          if hasRole u ADMIN then True
          else if ownerUid d = u_id u then True
          else u_id u \<in> set (listOf editors d @ listOf reviewers d
                               @ listOf approvers d @ listOf viewers d))"

definition canEditDocument :: "document \<Rightarrow> user option \<Rightarrow> bool" where
  "canEditDocument d user =
     (case user of
        None \<Rightarrow> False
      | Some u \<Rightarrow>
          if hasRole u ADMIN then True
          else if ownerUid d = u_id u then True
          else u_id u \<in> set (listOf editors d))"

definition canReviewDocument :: "document \<Rightarrow> user option \<Rightarrow> bool" where
  "canReviewDocument d user =
     (case user of
        None \<Rightarrow> False
      | Some u \<Rightarrow>
          if hasRole u ADMIN then True
          else u_id u \<in> set (listOf reviewers d))"

definition canApproveDocument :: "document \<Rightarrow> user option \<Rightarrow> bool" where
  "canApproveDocument d user =
     (case user of
        None \<Rightarrow> False
      | Some u \<Rightarrow>
          if hasRole u ADMIN then True
          else if hasRole u APPROVER then True
          else u_id u \<in> set (listOf approvers d))"

text \<open>
  Adding a uid to one of the four participant lists of a document: the list gains the
  uid at its end (\<^verbatim>\<open>push\<close>); a list, or a participants object, that was absent is
  created with the uid as its only member.
\<close>

datatype participant_list = Editors | Reviewers | Approvers | Viewers

definition pushUid :: "string \<Rightarrow> string list option \<Rightarrow> string list option" where
  "pushUid uid l = Some ((case l of None \<Rightarrow> [] | Some xs \<Rightarrow> xs) @ [uid])"

definition noParticipants :: participants where
  "noParticipants = \<lparr>editors = None, reviewers = None, approvers = None, viewers = None\<rparr>"

definition addParticipant :: "participant_list \<Rightarrow> string \<Rightarrow> document \<Rightarrow> document" where
  "addParticipant k uid d =
     (let p = (case participants d of None \<Rightarrow> noParticipants | Some p \<Rightarrow> p);
          p' = (case k of
                  Editors \<Rightarrow> p\<lparr>editors := pushUid uid (editors p)\<rparr>
                | Reviewers \<Rightarrow> p\<lparr>reviewers := pushUid uid (reviewers p)\<rparr>
                | Approvers \<Rightarrow> p\<lparr>approvers := pushUid uid (approvers p)\<rparr>
                | Viewers \<Rightarrow> p\<lparr>viewers := pushUid uid (viewers p)\<rparr>)
      in d\<lparr>participants := Some p'\<rparr>)"

section \<open>The remaining tables (shared/schema.ts)\<close>

text \<open>
  A JSON object whose values are strings, as an association list in key order: request
  bodies of the approve and reject routes, and the \<^verbatim>\<open>meta\<close>/\<^verbatim>\<open>metadata\<close> columns.
\<close>

type_synonym json_object = "(string \<times> string) list"

record version =
  v_id :: string
  v_docId :: string
  versionNumber :: string
  storagePath :: string
  sha256 :: "string option"
  createdBy :: string
  v_createdAt :: "int option"
  changeSummary :: "string option"
  fileName :: string
  fileSize :: "int option"
  mimeType :: "string option"

record assignees =
  as_review :: "string list option"
  as_sign :: "string list option"
  as_approve :: "string list option"

record history_entry =
  h_at :: int
  byUid :: string
  h_action :: string
  meta :: "json_object option"

record workflow =
  w_id :: string
  w_docId :: string
  w_state :: "workflow_state option"
  w_assignees :: "assignees option"
  history :: "history_entry list option"
  w_createdAt :: "int option"
  w_updatedAt :: "int option"

record task =
  t_id :: string
  t_type :: task_type
  t_docId :: string
  workflowId :: string
  t_state :: "task_state option"
  assignedTo :: "string list option"
  t_createdAt :: "int option"
  doneAt :: "int option"
  t_notes :: "string option"

record audit_log =
  a_id :: string
  actorUid :: string
  a_action :: string
  target :: "string \<times> string"
  a_timestamp :: "int option"
  ip :: "string option"
  userAgent :: "string option"
  diff :: "json_object option"
  metadata :: "json_object option"

record office_login =
  l_id :: string
  l_officeId :: string
  l_userId :: "string option"
  loginTime :: "int option"
  ipAddress :: "string option"
  sessionToken :: string
  isActive :: "bool option"
  expiresAt :: int

section \<open>The entity store (server/storage.ts)\<close>

text \<open>
  The state of the store: one list of rows per table, in insertion order. Both
  implementations of \<^verbatim>\<open>IStorage\<close> act on it: \<^verbatim>\<open>MemStorage\<close> keeps a \<^verbatim>\<open>Map\<close> per
  table (iteration in insertion order, \<^verbatim>\<open>set\<close> on an existing key replaces the value
  in place) and an array of audit logs; \<^verbatim>\<open>DatabaseStorage\<close> keeps the tables in
  PostgreSQL, where the model returns the rows of a \<^verbatim>\<open>select\<close> without
  \<^verbatim>\<open>orderBy\<close> in insertion order. Of the departments table only the ids are kept
  (the documents table refers to them).

  \<^verbatim>\<open>export const storage = process.env.NODE_ENV === 'production' ?
  new DatabaseStorage() : new MemStorage()\<close>: every route is parameterised by the
  implementation in use.
\<close>

record store =
  users :: "user list"
  departments :: "string list"
  documents :: "document list"
  documentVersions :: "version list"
  workflows :: "workflow list"
  tasks :: "task list"
  auditLogs :: "audit_log list"
  officeLogins :: "office_login list"

datatype backend = DatabaseStorage | MemStorage

text \<open>
  What a request reads from outside the store: the clock (\<^verbatim>\<open>Date.now()\<close>,
  \<^verbatim>\<open>new Date()\<close>, \<^verbatim>\<open>defaultNow()\<close>; one reading per request), the identifiers that
  \<^verbatim>\<open>generateId()\<close> or \<^verbatim>\<open>gen_random_uuid()\<close> produce (\<open>genId e k\<close> is the one
  produced by the \<open>k\<close>-th call of the request; nothing makes them fresh),
  \<^verbatim>\<open>req.ip\<close>, the User-Agent header, \<^verbatim>\<open>path.join\<close> of Node's library and whether the
  file-system calls of the upload route succeed.
\<close>

record env =
  now :: int
  genId :: "nat \<Rightarrow> string"
  req_ip :: "string option"
  req_userAgent :: "string option"
  pathJoin :: "string list \<Rightarrow> string"
  fsOk :: bool

text \<open>
  Exceptions: a call of a method the storage class does not define
  (\<^verbatim>\<open>TypeError: storage.f is not a function\<close>), a constraint violation reported by the
  database (primary key, foreign key), a failed \<^verbatim>\<open>parse\<close> of a zod schema, a failed
  file-system call. A storage operation that throws leaves the store as it found it.
  A database that cannot be reached is outside the model.
\<close>

datatype exn = TypeError | DbError | ZodError | FsError

type_synonym 'a io = "store \<Rightarrow> (exn + 'a) \<times> store"

definition returnIO :: "'a \<Rightarrow> 'a io" where
  "returnIO x s = (Inr x, s)"

definition throwIO :: "exn \<Rightarrow> 'a io" where
  "throwIO ex s = (Inl ex, s)"

definition bindIO :: "'a io \<Rightarrow> ('a \<Rightarrow> 'b io) \<Rightarrow> 'b io" where
  "bindIO m f s = (case m s of (Inl ex, s') \<Rightarrow> (Inl ex, s') | (Inr x, s') \<Rightarrow> f x s')"

text \<open>\<^verbatim>\<open>Map.prototype.set\<close> on a table keyed by \<open>key\<close>.\<close>

definition mapSet :: "('a \<Rightarrow> string) \<Rightarrow> 'a \<Rightarrow> 'a list \<Rightarrow> 'a list" where
  "mapSet key x xs =
     (if key x \<in> set (map key xs)
      then map (\<lambda>y. if key y = key x then x else y) xs
      else xs @ [x])"

text \<open>
  \<^verbatim>\<open>getUser\<close>, \<^verbatim>\<open>getDocument\<close>, \<^verbatim>\<open>getWorkflow\<close>: the row with the key
  (\<^verbatim>\<open>Map.get\<close>, \<^verbatim>\<open>Array.find\<close>; the first row of the \<^verbatim>\<open>select\<close>).
\<close>

definition getUser :: "store \<Rightarrow> string \<Rightarrow> user option" where
  "getUser s uid = find (\<lambda>u. u_id u = uid) (users s)"

definition getDocument :: "store \<Rightarrow> string \<Rightarrow> document option" where
  "getDocument s docId = find (\<lambda>d. d_id d = docId) (documents s)"

definition getWorkflow :: "store \<Rightarrow> string \<Rightarrow> workflow option" where
  "getWorkflow s docId = find (\<lambda>w. w_docId w = docId) (workflows s)"

subsection \<open>Documents\<close>





text \<open>\<^verbatim>\<open>x || null\<close> and \<^verbatim>\<open>x || ""\<close> on a string: the empty string is falsy.\<close>

definition orNull :: "string option \<Rightarrow> string option" where
  "orNull x = (case x of None \<Rightarrow> None | Some v \<Rightarrow> if v = [] then None else Some v)"

definition orElse :: "string option \<Rightarrow> string \<Rightarrow> string" where
  "orElse x dflt = (case x of None \<Rightarrow> dflt | Some v \<Rightarrow> if v = [] then dflt else v)"



text \<open>
  \<^verbatim>\<open>Partial<Document>\<close> as the routes build it: the keys they set, \<open>None\<close> for a
  key that is absent or \<^verbatim>\<open>undefined\<close>.
\<close>

record document_updates =
  upd_title :: "string option"
  upd_content :: "string option"
  upd_status :: "document_status option"
  upd_currentVersionId :: "string option"

definition noUpdates :: document_updates where
  "noUpdates = \<lparr>upd_title = None, upd_content = None, upd_status = None,
                upd_currentVersionId = None\<rparr>"

definition applyUpdates :: "document_updates \<Rightarrow> int \<Rightarrow> document \<Rightarrow> document" where
  "applyUpdates upd t d =
     d\<lparr>title := (case upd_title upd of None \<Rightarrow> title d | Some x \<Rightarrow> x),
       content := (case upd_content upd of None \<Rightarrow> content d | Some x \<Rightarrow> Some x),
       status := (case upd_status upd of None \<Rightarrow> status d | Some x \<Rightarrow> Some x),
       currentVersionId :=
         (case upd_currentVersionId upd of None \<Rightarrow> currentVersionId d | Some x \<Rightarrow> Some x),
       d_updatedAt := Some t\<rparr>"

text \<open>
  \<^verbatim>\<open>updateDocument\<close>. \<^verbatim>\<open>IStorage\<close> declares it; \<^verbatim>\<open>DatabaseStorage\<close> defines it twice
  and the later definition is the class's method
  (\<^verbatim>\<open>set({ ...updates, updatedAt: new Date() })\<close> on the row with the id, whose new
  value it returns); \<^verbatim>\<open>MemStorage\<close> does not define it, so that the call throws.
\<close>

definition updatedDocuments :: "env \<Rightarrow> string \<Rightarrow> document_updates \<Rightarrow> store \<Rightarrow> store" where
  "updatedDocuments e docId upd s =
     s\<lparr>documents :=
         map (\<lambda>d. if d_id d = docId then applyUpdates upd (now e) d else d) (documents s)\<rparr>"

definition updateDocument ::
  "backend \<Rightarrow> env \<Rightarrow> string \<Rightarrow> document_updates \<Rightarrow> document option io" where
  "updateDocument b e docId upd s =
     (case b of
        MemStorage \<Rightarrow> (Inl TypeError, s)
      | DatabaseStorage \<Rightarrow>
          (let s' = updatedDocuments e docId upd s in (Inr (getDocument s' docId), s')))"

subsection \<open>Numbers and strings of JavaScript\<close>

text \<open>
  \<^verbatim>\<open>parseInt(string)\<close> without a radix: leading white space is skipped, a sign is
  read, a prefix \<^verbatim>\<open>0x\<close>/\<^verbatim>\<open>0X\<close> selects radix 16, and the longest prefix of digits
  is the value; without a digit the result is \<^verbatim>\<open>NaN\<close> (\<open>None\<close>). A template
  literal prints an integer in decimal and \<^verbatim>\<open>NaN\<close> as \<^verbatim>\<open>NaN\<close>;
  \<^verbatim>\<open>NaN + 1\<close> is \<^verbatim>\<open>NaN\<close>. JavaScript numbers are doubles: the integers of the
  model are what they compute for magnitudes up to \<open>2^53\<close>, and the theorems below
  that depend on it say so. Strings are ASCII.
\<close>

definition isWhiteSpace :: "char \<Rightarrow> bool" where
  "isWhiteSpace c = (let n = (of_char c :: nat) in (9 \<le> n \<and> n \<le> 13) \<or> n = 32)"

definition decDigit :: "char \<Rightarrow> nat option" where
  "decDigit c =
     (let n = (of_char c :: nat) in if 48 \<le> n \<and> n \<le> 57 then Some (n - 48) else None)"

definition hexDigit :: "char \<Rightarrow> nat option" where
  "hexDigit c =
     (let n = (of_char c :: nat)
      in if 48 \<le> n \<and> n \<le> 57 then Some (n - 48)
         else if 97 \<le> n \<and> n \<le> 102 then Some (n - 87)
         else if 65 \<le> n \<and> n \<le> 70 then Some (n - 55)
         else None)"

fun digitsPrefix :: "(char \<Rightarrow> nat option) \<Rightarrow> string \<Rightarrow> nat list" where
  "digitsPrefix dv [] = []"
| "digitsPrefix dv (c # cs) = (case dv c of None \<Rightarrow> [] | Some v \<Rightarrow> v # digitsPrefix dv cs)"

definition digitsValue :: "nat \<Rightarrow> nat list \<Rightarrow> nat" where
  "digitsValue radix ds = foldl (\<lambda>acc v. acc * radix + v) 0 ds"

definition parseInt :: "string \<Rightarrow> int option" where
  "parseInt str =
     (let s1 = dropWhile isWhiteSpace str;
          neg = (case s1 of [] \<Rightarrow> False | c # _ \<Rightarrow> c = CHR ''-'');
          s2 = (case s1 of [] \<Rightarrow> [] | c # r \<Rightarrow> if c = CHR ''-'' \<or> c = CHR ''+'' then r else s1);
          hex = (case s2 of c # x # _ \<Rightarrow> c = CHR ''0'' \<and> (x = CHR ''x'' \<or> x = CHR ''X'')
                 | _ \<Rightarrow> False);
          ds = (if hex then digitsPrefix hexDigit (drop 2 s2) else digitsPrefix decDigit s2);
          v = int (digitsValue (if hex then 16 else 10) ds)
      in if ds = [] then None else Some (if neg then - v else v))"

function decimal :: "nat \<Rightarrow> string" where
  "decimal n =
     (if n < 10 then [char_of (48 + n)] else decimal (n div 10) @ [char_of (48 + n mod 10)])"
  by pat_completeness auto
termination
  by (relation "measure id") auto

declare decimal.simps [simp del]

definition numberToString :: "int option \<Rightarrow> string" where
  "numberToString x =
     (case x of
        None \<Rightarrow> ''NaN''
      | Some n \<Rightarrow> if n < 0 then CHR ''-'' # decimal (nat (- n)) else decimal (nat n))"

subsection \<open>Document versions\<close>

text \<open>
  \<^verbatim>\<open>orderBy(desc(createdAt))\<close> and
  \<^verbatim>\<open>sort((a, b) => (b.createdAt?.getTime() || 0) - (a.createdAt?.getTime() || 0))\<close>:
  newest first; the sort of an array is stable and counts a missing date as 0;
  PostgreSQL puts NULL first in a descending order (rows that compare equal come in
  insertion order in the model).
\<close>

definition createdDesc :: "backend \<Rightarrow> ('a \<Rightarrow> int option) \<Rightarrow> 'a list \<Rightarrow> 'a list" where
  "createdDesc b created xs =
     (let key = (\<lambda>x. - (case created x of None \<Rightarrow> 0 | Some t \<Rightarrow> t))
      in case b of
           MemStorage \<Rightarrow> sort_key key xs
         | DatabaseStorage \<Rightarrow>
             filter (\<lambda>x. created x = None) xs @ sort_key key (filter (\<lambda>x. created x \<noteq> None) xs))"

definition getDocumentVersions :: "backend \<Rightarrow> store \<Rightarrow> string \<Rightarrow> version list" where
  "getDocumentVersions b s docId =
     createdDesc b v_createdAt (filter (\<lambda>v. v_docId v = docId) (documentVersions s))"

text \<open>The fields the upload route passes to \<^verbatim>\<open>createDocumentVersion\<close>.\<close>

record insert_version =
  iv_docId :: string
  iv_versionNumber :: string
  iv_storagePath :: string
  iv_createdBy :: string
  iv_fileName :: string
  iv_fileSize :: int
  iv_mimeType :: string
  iv_changeSummary :: string

definition createDocumentVersion ::
  "backend \<Rightarrow> env \<Rightarrow> string \<Rightarrow> insert_version \<Rightarrow> version io" where
  "createDocumentVersion b e newId iv s =
     (case b of
        MemStorage \<Rightarrow>
          (let ver = \<lparr>v_id = newId, v_docId = iv_docId iv,
                      versionNumber = iv_versionNumber iv,
                      storagePath = iv_storagePath iv, sha256 = None,
                      createdBy = iv_createdBy iv, v_createdAt = Some (now e),
                      changeSummary = orNull (Some (iv_changeSummary iv)),
                      fileName = iv_fileName iv,
                      fileSize = (if iv_fileSize iv = 0 then None else Some (iv_fileSize iv)),
                      mimeType = orNull (Some (iv_mimeType iv))\<rparr>
           in (Inr ver, s\<lparr>documentVersions := mapSet v_id ver (documentVersions s)\<rparr>))
      | DatabaseStorage \<Rightarrow>
          (let ver = \<lparr>v_id = newId, v_docId = iv_docId iv,
                      versionNumber = iv_versionNumber iv,
                      storagePath = iv_storagePath iv, sha256 = None,
                      createdBy = iv_createdBy iv, v_createdAt = Some (now e),
                      changeSummary = Some (iv_changeSummary iv),
                      fileName = iv_fileName iv,
                      fileSize = Some (iv_fileSize iv),
                      mimeType = Some (iv_mimeType iv)\<rparr>
           in if newId \<in> set (map v_id (documentVersions s)) then (Inl DbError, s)
              else if iv_docId iv \<notin> set (map d_id (documents s)) then (Inl DbError, s)
              else if iv_createdBy iv \<notin> set (map u_id (users s)) then (Inl DbError, s)
              else (Inr ver, s\<lparr>documentVersions := documentVersions s @ [ver]\<rparr>)))"

subsection \<open>Workflows\<close>


text \<open>
  \<^verbatim>\<open>updateWorkflow(id, { state, history })\<close>, the same in both classes: the row with
  the id takes the two values and a new \<^verbatim>\<open>updatedAt\<close>; without such a row nothing
  happens.
\<close>

definition updateWorkflow ::
  "env \<Rightarrow> string \<Rightarrow> workflow_state \<Rightarrow> history_entry list \<Rightarrow> workflow option io" where
  "updateWorkflow e wfId st hist s =
     (let s' = s\<lparr>workflows :=
                   map (\<lambda>w. if w_id w = wfId
                             then w\<lparr>w_state := Some st, history := Some hist,
                                    w_updatedAt := Some (now e)\<rparr>
                             else w)
                       (workflows s)\<rparr>
      in (Inr (find (\<lambda>w. w_id w = wfId) (workflows s')), s'))"

subsection \<open>Tasks\<close>

text \<open>\<^verbatim>\<open>createTask({ type, docId, workflowId, assignedTo })\<close>.\<close>

definition createTask ::
  "backend \<Rightarrow> env \<Rightarrow> string \<Rightarrow> task_type \<Rightarrow> string \<Rightarrow> string \<Rightarrow> string list \<Rightarrow> task io" where
  "createTask b e newId ty docId wfId assigned s =
     (let t = \<lparr>t_id = newId, t_type = ty, t_docId = docId, workflowId = wfId,
               t_state = Some OPEN, assignedTo = Some assigned,
               t_createdAt = Some (now e), doneAt = None, t_notes = None\<rparr>
      in case b of
           MemStorage \<Rightarrow> (Inr t, s\<lparr>tasks := mapSet t_id t (tasks s)\<rparr>)
         | DatabaseStorage \<Rightarrow>
             if newId \<in> set (map t_id (tasks s)) then (Inl DbError, s)
             else if docId \<notin> set (map d_id (documents s)) then (Inl DbError, s)
             else if wfId \<notin> set (map w_id (workflows s)) then (Inl DbError, s)
             else (Inr t, s\<lparr>tasks := tasks s @ [t]\<rparr>))"

text \<open>
  \<^verbatim>\<open>getTasks({ assignedTo, state })\<close>. A filter is applied when its value is truthy.
  \<^verbatim>\<open>MemStorage\<close> keeps the tasks whose \<^verbatim>\<open>assignedTo\<close> includes the uid,
  \<^verbatim>\<open>DatabaseStorage\<close> those whose \<^verbatim>\<open>assignedTo\<close> equals the one-element array.
\<close>

definition getTasks :: "backend \<Rightarrow> store \<Rightarrow> string \<Rightarrow> task_state \<Rightarrow> task list" where
  "getTasks b s assigned st =
     (let byUser =
            (\<lambda>t. assigned = [] \<or>
                  (case b of
                     MemStorage \<Rightarrow>
                       (case assignedTo t of None \<Rightarrow> False | Some xs \<Rightarrow> assigned \<in> set xs)
                   | DatabaseStorage \<Rightarrow> assignedTo t = Some [assigned]))
      in createdDesc b t_createdAt
           (filter (\<lambda>t. t_state t = Some st) (filter byUser (tasks s))))"

text \<open>\<^verbatim>\<open>updateTask(id, { state, doneAt, notes })\<close>, the same in both classes.\<close>

definition updateTask ::
  "string \<Rightarrow> task_state \<Rightarrow> int \<Rightarrow> string \<Rightarrow> task option io" where
  "updateTask taskId st done nts s =
     (let s' = s\<lparr>tasks :=
                   map (\<lambda>t. if t_id t = taskId
                             then t\<lparr>t_state := Some st, doneAt := Some done, t_notes := Some nts\<rparr>
                             else t)
                       (tasks s)\<rparr>
      in (Inr (find (\<lambda>t. t_id t = taskId) (tasks s')), s'))"

subsection \<open>Audit logs\<close>

text \<open>
  \<^verbatim>\<open>createAuditLog({ actorUid, action, target, ip, userAgent, metadata })\<close>.
  \<^verbatim>\<open>MemStorage\<close> pushes onto an array; the database checks the id and the actor.
\<close>

definition createAuditLog ::
  "backend \<Rightarrow> env \<Rightarrow> string \<Rightarrow> string \<Rightarrow> string \<Rightarrow> string \<times> string \<Rightarrow> json_object option
     \<Rightarrow> audit_log io" where
  "createAuditLog b e newId actor act tgt md s =
     (case b of
        MemStorage \<Rightarrow>
          (let l = \<lparr>a_id = newId, actorUid = actor, a_action = act, target = tgt,
                    a_timestamp = Some (now e), ip = orNull (req_ip e),
                    userAgent = orNull (req_userAgent e), diff = None, metadata = md\<rparr>
           in (Inr l, s\<lparr>auditLogs := auditLogs s @ [l]\<rparr>))
      | DatabaseStorage \<Rightarrow>
          (let l = \<lparr>a_id = newId, actorUid = actor, a_action = act, target = tgt,
                    a_timestamp = Some (now e), ip = req_ip e,
                    userAgent = req_userAgent e, diff = None, metadata = md\<rparr>
           in if newId \<in> set (map a_id (auditLogs s)) then (Inl DbError, s)
              else if actor \<notin> set (map u_id (users s)) then (Inl DbError, s)
              else (Inr l, s\<lparr>auditLogs := auditLogs s @ [l]\<rparr>)))"

subsection \<open>Office sessions\<close>


section \<open>The routes (server/routes.ts)\<close>

text \<open>
  A response is a status code and a JSON payload. A route is a function from the store
  to the response and the store it leaves; the caller is the user id that
  \<^verbatim>\<open>isAuthenticated\<close> established (\<^verbatim>\<open>req.user.claims.sub\<close>).
  \<^verbatim>\<open>try { ... } catch (error) { res.status(500).json({ message }) }\<close> keeps whatever
  the route had written before the exception.
\<close>

datatype payload =
  Message string
  | ValidationError
  | DocumentJson "document option"
  | VersionJson version

datatype response = Response (code: nat) (payload: payload)

definition respond :: "nat \<Rightarrow> payload \<Rightarrow> response io" where
  "respond c p = returnIO (Response c p)"

definition tryCatch :: "string \<Rightarrow> response io \<Rightarrow> store \<Rightarrow> response \<times> store" where
  "tryCatch msg m s =
     (case m s of
        (Inr r, s') \<Rightarrow> (r, s')
      | (Inl ex, s') \<Rightarrow> (Response 500 (Message msg), s'))"

subsection \<open>POST /api/documents\<close>






subsection \<open>PATCH /api/documents/:id\<close>

text \<open>
  The route does not call \<^verbatim>\<open>canEditDocument\<close>: it compares the owner and looks the
  caller up in the editors itself.
\<close>

definition patchDocumentRoute ::
  "backend \<Rightarrow> env \<Rightarrow> string \<Rightarrow> string \<Rightarrow> string option \<Rightarrow> string option \<Rightarrow> store
     \<Rightarrow> response \<times> store" where
  "patchDocumentRoute b e userId docId ttl cnt s =
     tryCatch ''Failed to update document''
       (case getDocument s docId of
          None \<Rightarrow> respond 404 (Message ''Document not found'')
        | Some document \<Rightarrow>
            if ownerUid document \<noteq> userId \<and> userId \<notin> set (listOf editors document)
            then respond 403 (Message ''Access denied'')
            else if status document \<noteq> Some DRAFT \<and> status document \<noteq> Some REJECTED
            then respond 400 (Message ''Document cannot be edited in current state'')
            else bindIO (updateDocument b e docId
                           (noUpdates\<lparr>upd_title := ttl, upd_content := cnt\<rparr>))
                   (\<lambda>updatedDocument. respond 200 (DocumentJson updatedDocument))) s"

subsection \<open>POST /api/documents/:id/versions\<close>

record upload_file =
  originalname :: string
  f_size :: int
  mimetype :: string

text \<open>
  Lines 210 to 214 of the route: the number of the new version from the versions that
  \<^verbatim>\<open>getDocumentVersions\<close> returned, \<^verbatim>\<open>versions[0]\<close> being the latest.
\<close>

definition newVersionNumber :: "version list \<Rightarrow> string" where
  "newVersionNumber versions =
     (case versions of
        [] \<Rightarrow> ''1.0''
      | latestVersion # _ \<Rightarrow>
          numberToString
            (map_option (\<lambda>n. n + 1)
               (parseInt (takeWhile (\<lambda>c. c \<noteq> CHR ''.'') (versionNumber latestVersion))))
          @ ''.0'')"

definition uploadVersionRoute ::
  "backend \<Rightarrow> env \<Rightarrow> string \<Rightarrow> string \<Rightarrow> upload_file option \<Rightarrow> string option \<Rightarrow> store
     \<Rightarrow> response \<times> store" where
  "uploadVersionRoute b e userId docId file summary s =
     tryCatch ''Failed to upload version''
       (case file of
          None \<Rightarrow> respond 400 (Message ''No file uploaded'')
        | Some f \<Rightarrow>
            (case getDocument s docId of
               None \<Rightarrow> respond 404 (Message ''Document not found'')
             | Some document \<Rightarrow>
                 if \<not> canEditDocument document (getUser s userId)
                 then respond 403 (Message ''Access denied'')
                 else if \<not> fsOk e then throwIO FsError
                 else
                   (let fileName' = numberToString (Some (now e)) @ ''-'' @ originalname f;
                        permanentPath = pathJoin e [''storage'', ''documents'', docId, fileName'];
                        number = newVersionNumber (getDocumentVersions b s docId)
                    in bindIO (createDocumentVersion b e (genId e 0)
                                 \<lparr>iv_docId = docId, iv_versionNumber = number,
                                  iv_storagePath = permanentPath, iv_createdBy = userId,
                                  iv_fileName = originalname f, iv_fileSize = f_size f,
                                  iv_mimeType = mimetype f,
                                  iv_changeSummary = orElse summary ''New version uploaded''\<rparr>)
                         (\<lambda>version.
                       bindIO (updateDocument b e docId
                                 (noUpdates\<lparr>upd_currentVersionId := Some (v_id version)\<rparr>)) (\<lambda>_.
                       bindIO (createAuditLog b e (genId e 1) userId ''VERSION_UPLOADED''
                                 (''document'', docId)
                                 (Some [(''versionId'', v_id version),
                                        (''versionNumber'', number)])) (\<lambda>_.
                       respond 201 (VersionJson version))))))) s"

subsection \<open>POST /api/documents/:id/submit\<close>

text \<open>
  \<^verbatim>\<open>const history = workflow.history || []; history.push(entry);
  updateWorkflow(workflow.id, { state, history })\<close>, under \<^verbatim>\<open>if (workflow)\<close>: the
  three transitions share it.
\<close>

definition recordTransition ::
  "env \<Rightarrow> workflow option \<Rightarrow> workflow_state \<Rightarrow> history_entry \<Rightarrow> unit io" where
  "recordTransition e workflow st entry =
     (case workflow of
        None \<Rightarrow> returnIO ()
      | Some flow \<Rightarrow>
          bindIO (updateWorkflow e (w_id flow) st
                    ((case history flow of None \<Rightarrow> [] | Some h \<Rightarrow> h) @ [entry]))
            (\<lambda>_. returnIO ()))"

text \<open>
  The loop over \<^verbatim>\<open>document.participants.reviewers\<close>; \<open>k\<close> counts the identifiers
  generated so far.
\<close>

fun createReviewTasks ::
  "backend \<Rightarrow> env \<Rightarrow> nat \<Rightarrow> string \<Rightarrow> string \<Rightarrow> string list \<Rightarrow> unit io" where
  "createReviewTasks b e k docId wfId [] = returnIO ()"
| "createReviewTasks b e k docId wfId (reviewerId # rest) =
     bindIO (createTask b e (genId e k) T_REVIEW docId wfId [reviewerId])
       (\<lambda>_. createReviewTasks b e (Suc k) docId wfId rest)"

definition submitRoute ::
  "backend \<Rightarrow> env \<Rightarrow> string \<Rightarrow> string \<Rightarrow> store \<Rightarrow> response \<times> store" where
  "submitRoute b e userId docId s =
     tryCatch ''Failed to submit document''
       (case getDocument s docId of
          None \<Rightarrow> respond 404 (Message ''Document not found'')
        | Some document \<Rightarrow>
            if status document \<noteq> Some DRAFT
            then respond 400 (Message ''Document must be in DRAFT status'')
            else if \<not> canEditDocument document (getUser s userId)
            then respond 403 (Message ''Access denied'')
            else
              bindIO (updateDocument b e docId (noUpdates\<lparr>upd_status := Some IN_REVIEW\<rparr>)) (\<lambda>_.
              bindIO (\<lambda>s1. (Inr (getWorkflow s1 docId), s1)) (\<lambda>workflow.
              bindIO (recordTransition e workflow W_REVIEW
                        \<lparr>h_at = now e, byUid = userId, h_action = ''SUBMIT_FOR_REVIEW'',
                         meta = None\<rparr>) (\<lambda>_.
              bindIO (createReviewTasks b e 0 docId
                        (case workflow of None \<Rightarrow> [] | Some flow \<Rightarrow> w_id flow)
                        (listOf reviewers document)) (\<lambda>_.
              bindIO (createAuditLog b e (genId e (length (listOf reviewers document))) userId
                        ''SUBMIT_FOR_REVIEW'' (''document'', docId) None) (\<lambda>_.
              respond 200 (Message ''Document submitted for review''))))))) s"

subsection \<open>POST /api/documents/:id/approve\<close>

text \<open>The loop that completes the caller's open tasks for the document.\<close>

fun completeTasks :: "int \<Rightarrow> string \<Rightarrow> task list \<Rightarrow> unit io" where
  "completeTasks done nts [] = returnIO ()"
| "completeTasks done nts (t # rest) =
     bindIO (updateTask (t_id t) DONE done nts) (\<lambda>_. completeTasks done nts rest)"

definition approveRoute ::
  "backend \<Rightarrow> env \<Rightarrow> string \<Rightarrow> string \<Rightarrow> json_object \<Rightarrow> store \<Rightarrow> response \<times> store" where
  "approveRoute b e userId docId body s =
     tryCatch ''Failed to approve document''
       (case getDocument s docId of
          None \<Rightarrow> respond 404 (Message ''Document not found'')
        | Some document \<Rightarrow>
            if \<not> canApproveDocument document (getUser s userId)
            then respond 403 (Message ''Access denied'')
            else
              bindIO (updateDocument b e docId (noUpdates\<lparr>upd_status := Some APPROVED\<rparr>)) (\<lambda>_.
              bindIO (\<lambda>s1. (Inr (getWorkflow s1 docId), s1)) (\<lambda>workflow.
              bindIO (recordTransition e workflow W_DONE
                        \<lparr>h_at = now e, byUid = userId, h_action = ''APPROVE'',
                         meta = Some body\<rparr>) (\<lambda>_.
              bindIO (\<lambda>s2. (Inr (getTasks b s2 userId OPEN), s2)) (\<lambda>userTasks.
              bindIO (completeTasks (now e) (orElse (map_of body ''notes'') ''Approved'')
                        (filter (\<lambda>t. t_docId t = docId) userTasks)) (\<lambda>_.
              bindIO (createAuditLog b e (genId e 0) userId ''APPROVE_DOCUMENT''
                        (''document'', docId) (Some body)) (\<lambda>_.
              respond 200 (Message ''Document approved'')))))))) s"

subsection \<open>POST /api/documents/:id/reject\<close>

definition rejectRoute ::
  "backend \<Rightarrow> env \<Rightarrow> string \<Rightarrow> string \<Rightarrow> json_object \<Rightarrow> store \<Rightarrow> response \<times> store" where
  "rejectRoute b e userId docId body s =
     tryCatch ''Failed to reject document''
       (case orNull (map_of body ''reason'') of
          None \<Rightarrow> respond 400 (Message ''Rejection reason is required'')
        | Some reason \<Rightarrow>
            (case getDocument s docId of
               None \<Rightarrow> respond 404 (Message ''Document not found'')
             | Some document \<Rightarrow>
                 if \<not> canApproveDocument document (getUser s userId)
                    \<and> \<not> canReviewDocument document (getUser s userId)
                 then respond 403 (Message ''Access denied'')
                 else
                   bindIO (updateDocument b e docId (noUpdates\<lparr>upd_status := Some REJECTED\<rparr>))
                     (\<lambda>_.
                   bindIO (\<lambda>s1. (Inr (getWorkflow s1 docId), s1)) (\<lambda>workflow.
                   bindIO (recordTransition e workflow W_REJECTED
                             \<lparr>h_at = now e, byUid = userId, h_action = ''REJECT'',
                              meta = Some [(''reason'', reason)]\<rparr>) (\<lambda>_.
                   bindIO (createAuditLog b e (genId e 0) userId ''REJECT_DOCUMENT''
                             (''document'', docId) (Some [(''reason'', reason)])) (\<lambda>_.
                   respond 200 (Message ''Document rejected''))))))) s"

subsection \<open>The office-session middleware\<close>



section \<open>Rows that the routes write\<close>

text \<open>
  The history entry of a submit, and the task that the submit route creates for the
  reviewer \<open>r\<close> with the \<open>k\<close>-th identifier of the request.
\<close>

definition submitEntry :: "env \<Rightarrow> string \<Rightarrow> history_entry" where
  "submitEntry e userId =
     \<lparr>h_at = now e, byUid = userId, h_action = ''SUBMIT_FOR_REVIEW'', meta = None\<rparr>"



text \<open>The date of a version, when it has one, is not after the date of \<open>v\<close>.\<close>

definition notAfter :: "version \<Rightarrow> version \<Rightarrow> bool" where
  "notAfter x v =
     (case (v_createdAt x, v_createdAt v) of (Some t', Some t) \<Rightarrow> t' \<le> t | _ \<Rightarrow> True)"

section \<open>Example data\<close>

text \<open>
  The scenario of the specification: the document ``Q3 Report'' of \<open>alice\<close> with the
  reviewer \<open>u1\<close> and the approver \<open>u2\<close>, next to an administrator who is neither
  its owner nor one of its participants.
\<close>

definition exUser :: "string \<Rightarrow> user_role list \<Rightarrow> user" where
  "exUser uid rs =
     \<lparr>u_id = uid, email = None, firstName = None, lastName = None, roles = Some rs,
      u_officeId = None\<rparr>"

definition exDoc :: document where
  "exDoc =
     \<lparr>d_id = ''doc1'', title = ''Q3 Report'', content = Some [], ownerUid = ''alice'',
      departmentId = None, status = Some DRAFT, currentVersionId = None, tags = Some [],
      d_createdAt = Some 5, d_updatedAt = Some 5, dueAt = None,
      participants = Some \<lparr>editors = Some [], reviewers = Some [''u1''],
                              approvers = Some [''u2''], viewers = Some []\<rparr>,
      d_acl = Some \<lparr>acl_read = Some [], acl_write = Some []\<rparr>\<rparr>"

definition exFlow :: workflow where
  "exFlow =
     \<lparr>w_id = ''wf1'', w_docId = ''doc1'', w_state = Some W_DRAFT,
      w_assignees = Some \<lparr>as_review = Some [], as_sign = Some [], as_approve = Some []\<rparr>,
      history = Some [], w_createdAt = Some 5, w_updatedAt = Some 5\<rparr>"

definition exStore :: store where
  "exStore =
     \<lparr>users = [exUser ''alice'' [OFFICER], exUser ''u1'' [REVIEWER], exUser ''u2'' [],
               exUser ''root'' [ADMIN]],
      departments = [], documents = [exDoc], documentVersions = [],
      workflows = [exFlow], tasks = [], auditLogs = [], officeLogins = []\<rparr>"

text \<open>
  A request at time \<open>t\<close> whose generated identifiers start with \<open>tag\<close>.
\<close>

definition exEnv :: "int \<Rightarrow> string \<Rightarrow> env" where
  "exEnv t tag =
     \<lparr>now = t, genId = (\<lambda>k. tag @ decimal k), req_ip = Some ''10.0.0.1'',
      req_userAgent = Some ''curl'',
      pathJoin = (\<lambda>ps. foldr (\<lambda>p acc. if acc = [] then p else p @ CHR ''/'' # acc) ps []),
      fsOk = True\<rparr>"

text \<open>
  The same store once \<open>alice\<close> has submitted the document at time 1000, and then
  once \<open>u2\<close> has approved it at time 2000, both on \<^verbatim>\<open>DatabaseStorage\<close>.
\<close>

definition exSubmittedStore :: store where
  "exSubmittedStore =
     snd (submitRoute DatabaseStorage (exEnv 1000 ''a'') ''alice'' ''doc1'' exStore)"

definition exApprovedStore :: store where
  "exApprovedStore =
     snd (approveRoute DatabaseStorage (exEnv 2000 ''b'') ''u2'' ''doc1'' [(''notes'', ''ok'')]
            exSubmittedStore)"

definition exFirstApprove :: history_entry where
  "exFirstApprove =
     \<lparr>h_at = 2000, byUid = ''u2'', h_action = ''APPROVE'', meta = Some [(''notes'', ''ok'')]\<rparr>"




definition exFile :: upload_file where
  "exFile = \<lparr>originalname = ''q3.pdf'', f_size = 2048, mimetype = ''application/pdf''\<rparr>"


text \<open>The third history entry of the example: a second approval by \<open>u2\<close>.\<close>

definition exSecondApprove :: history_entry where
  "exSecondApprove =
     \<lparr>h_at = 3000, byUid = ''u2'', h_action = ''APPROVE'',
      meta = Some [(''notes'', ''again'')]\<rparr>"

text \<open>
  A second document of \<open>alice\<close>, with the reviewers \<open>u1\<close> and \<open>u2\<close>, and its
  workflow, next to the first in the store.
\<close>

definition exDoc2 :: document where
  "exDoc2 =
     exDoc\<lparr>d_id := ''doc2'', title := ''Budget'',
           participants := Some \<lparr>editors = Some [], reviewers = Some [''u1'', ''u2''],
                                   approvers = Some [], viewers = Some []\<rparr>\<rparr>"

definition exFlow2 :: workflow where
  "exFlow2 = exFlow\<lparr>w_id := ''wf2'', w_docId := ''doc2''\<rparr>"

definition exTwoStore :: store where
  "exTwoStore = exStore\<lparr>documents := [exDoc, exDoc2], workflows := [exFlow, exFlow2]\<rparr>"

text \<open>
  The versions that two uploads of \<open>exFile\<close> by \<open>alice\<close> to the first of the two
  documents create on \<^verbatim>\<open>DatabaseStorage\<close>, the first at time 1000 with the identifier
  \<^verbatim>\<open>a0\<close>, the second at time 2000 with the identifier \<^verbatim>\<open>b0\<close>, and the store
  between them.
\<close>

definition exVersion1 :: version where
  "exVersion1 =
     \<lparr>v_id = ''a0'', v_docId = ''doc1'', versionNumber = ''1.0'',
      storagePath = ''storage/documents/doc1/1000-q3.pdf'', sha256 = None,
      createdBy = ''alice'', v_createdAt = Some 1000,
      changeSummary = Some ''New version uploaded'', fileName = ''q3.pdf'',
      fileSize = Some 2048, mimeType = Some ''application/pdf''\<rparr>"

definition exVersion2 :: version where
  "exVersion2 =
     exVersion1\<lparr>v_id := ''b0'', versionNumber := ''2.0'',
                storagePath := ''storage/documents/doc1/2000-q3.pdf'',
                v_createdAt := Some 2000\<rparr>"

definition exStoreV1 :: store where
  "exStoreV1 =
     snd (uploadVersionRoute DatabaseStorage (exEnv 1000 ''a'') ''alice'' ''doc1'' (Some exFile)
            None exTwoStore)"

text \<open>
  The version that an upload to the second document creates in that store, at time
  3000 with the identifier \<^verbatim>\<open>c0\<close>.
\<close>

definition exVersion3 :: version where
  "exVersion3 =
     exVersion1\<lparr>v_id := ''c0'', v_docId := ''doc2'',
                storagePath := ''storage/documents/doc2/3000-q3.pdf'',
                v_createdAt := Some 3000\<rparr>"




section \<open>Properties of the access-control predicates\<close>

lemma listOf_addParticipant:
  "sel = editors \<or> sel = reviewers \<or> sel = approvers \<or> sel = viewers \<Longrightarrow>
     set (listOf sel d) \<subseteq> set (listOf sel (addParticipant k uid d))"
  by (auto simp: listOf_def addParticipant_def pushUid_def noParticipants_def Let_def
           split: option.splits participant_list.splits)

text \<open>
  C9. \<^verbatim>\<open>canAccessDocument\<close> is monotonic in the participant lists: whatever uid is
  added to whichever of the four lists, a user who could access the document before
  can still access it afterwards, so adding a uid never turns a true result into a
  false one.
\<close>

theorem canAccessDocument_monotonic:
  "canAccessDocument d user \<Longrightarrow> canAccessDocument (addParticipant k uid d) user"
proof -
  assume acc: "canAccessDocument d user"
  have owner: "ownerUid (addParticipant k uid d) = ownerUid d"
    by (simp add: addParticipant_def Let_def)
  have e: "set (listOf editors d) \<subseteq> set (listOf editors (addParticipant k uid d))"
    by (rule listOf_addParticipant) simp
  have r: "set (listOf reviewers d) \<subseteq> set (listOf reviewers (addParticipant k uid d))"
    by (rule listOf_addParticipant) simp
  have a: "set (listOf approvers d) \<subseteq> set (listOf approvers (addParticipant k uid d))"
    by (rule listOf_addParticipant) simp
  have v: "set (listOf viewers d) \<subseteq> set (listOf viewers (addParticipant k uid d))"
    by (rule listOf_addParticipant) simp
  show ?thesis
  proof (cases user)
    case None
    with acc show ?thesis by (simp add: canAccessDocument_def)
  next
    case (Some u)
    with acc owner e r a v show ?thesis
      by (auto simp: canAccessDocument_def split: if_splits)
  qed
qed

theorem canAccessDocument_monotonic_witness:
  "canAccessDocument exDoc (Some (exUser ''u1'' [REVIEWER]))
   \<and> canAccessDocument (addParticipant Viewers ''u7'' exDoc) (Some (exUser ''u1'' [REVIEWER]))"
proof -
  have h: "canAccessDocument exDoc (Some (exUser ''u1'' [REVIEWER]))"
    by (simp add: canAccessDocument_def exDoc_def exUser_def hasRole_def listOf_def)
  from h canAccessDocument_monotonic [OF h, of Viewers "''u7''"] show ?thesis by simp
qed

section \<open>Properties of the store operations\<close>

lemma find_map_pres:
  "(\<And>x. P (g x) = P x) \<Longrightarrow> find P (map g xs) = map_option g (find P xs)"
  by (induction xs) auto

lemma updateDocument_Mem:
  "updateDocument MemStorage e docId upd s = (Inl TypeError, s)"
  by (simp add: updateDocument_def)

lemma updateDocument_DB:
  "updateDocument DatabaseStorage e docId upd s =
     (Inr (getDocument (updatedDocuments e docId upd s) docId), updatedDocuments e docId upd s)"
  by (simp add: updateDocument_def Let_def)

lemma d_id_applyUpdates: "d_id (applyUpdates upd t d) = d_id d"
  by (simp add: applyUpdates_def)

lemma getDocument_updated:
  "getDocument (updatedDocuments e docId upd s) docId' =
     map_option (\<lambda>d. if d_id d = docId then applyUpdates upd (now e) d else d)
       (getDocument s docId')"
  unfolding getDocument_def updatedDocuments_def
  by (simp add: find_map_pres d_id_applyUpdates)




lemma createAuditLog_DB:
  "createAuditLog DatabaseStorage e newId actor act tgt md s = (Inr l, s') \<Longrightarrow>
     s' = s\<lparr>auditLogs := auditLogs s @ [l]\<rparr>"
  by (auto simp: createAuditLog_def Let_def split: if_splits)

section \<open>Submitting a document\<close>


text \<open>
  On \<^verbatim>\<open>MemStorage\<close> a submit that passes both guards stops at the call of
  \<^verbatim>\<open>updateDocument\<close>: the route answers 500 and nothing is written.
\<close>

lemma submit_on_MemStorage:
  "getDocument s docId = Some d \<Longrightarrow> status d = Some DRAFT \<Longrightarrow>
     canEditDocument d (getUser s userId) \<Longrightarrow>
     submitRoute MemStorage e userId docId s
       = (Response 500 (Message ''Failed to submit document''), s)"
  by (simp add: submitRoute_def tryCatch_def bindIO_def updateDocument_Mem)

text \<open>
  C3. For every existing document whose status is not \<^verbatim>\<open>DRAFT\<close>, submit answers
  400 ``Document must be in DRAFT status'' and leaves the whole store as it was: the
  document, the state and the history of its workflow and the tasks are unchanged,
  whichever storage is in use and whoever calls.
\<close>

theorem submit_not_draft_unchanged:
  "getDocument s docId = Some d \<Longrightarrow> status d \<noteq> Some DRAFT \<Longrightarrow>
     submitRoute b e userId docId s
       = (Response 400 (Message ''Document must be in DRAFT status''), s)"
  by (simp add: submitRoute_def tryCatch_def respond_def returnIO_def)

theorem submit_not_draft_unchanged_witness:
  "getDocument exApprovedStore ''doc1'' = Some (exDoc\<lparr>status := Some APPROVED, d_updatedAt := Some 2000\<rparr>)
   \<and> status (exDoc\<lparr>status := Some APPROVED, d_updatedAt := Some 2000\<rparr>) \<noteq> Some DRAFT
   \<and> submitRoute DatabaseStorage (exEnv 3000 ''c'') ''alice'' ''doc1'' exApprovedStore
       = (Response 400 (Message ''Document must be in DRAFT status''), exApprovedStore)"
proof -
  have h1: "getDocument exApprovedStore ''doc1''
              = Some (exDoc\<lparr>status := Some APPROVED, d_updatedAt := Some 2000\<rparr>)"
    by code_simp
  have h2: "status (exDoc\<lparr>status := Some APPROVED, d_updatedAt := Some 2000\<rparr>) \<noteq> Some DRAFT"
    by simp
  from h1 h2 submit_not_draft_unchanged [OF h1 h2, of DatabaseStorage "exEnv 3000 ''c''" "''alice''"]
  show ?thesis by simp
qed

text \<open>
  C10. In the submit route the status guard comes before the authorization check:
  on an existing document that is not in \<^verbatim>\<open>DRAFT\<close> every caller, also one who may
  not edit the document, gets the status 400; and a submit that answers 403 found the
  document in \<^verbatim>\<open>DRAFT\<close> and the caller not allowed to edit it.
\<close>

theorem submit_guard_before_authorization:
  "(\<forall>d. getDocument s docId = Some d \<and> status d \<noteq> Some DRAFT
        \<longrightarrow> code (fst (submitRoute b e userId docId s)) = 400)
   \<and> (code (fst (submitRoute b e userId docId s)) = 403
        \<longrightarrow> (\<exists>d. getDocument s docId = Some d \<and> status d = Some DRAFT
                 \<and> \<not> canEditDocument d (getUser s userId)))"
proof (intro conjI allI impI)
  fix d
  assume "getDocument s docId = Some d \<and> status d \<noteq> Some DRAFT"
  then show "code (fst (submitRoute b e userId docId s)) = 400"
    by (simp add: submitRoute_def tryCatch_def respond_def returnIO_def)
next
  assume c: "code (fst (submitRoute b e userId docId s)) = 403"
  show "\<exists>d. getDocument s docId = Some d \<and> status d = Some DRAFT
            \<and> \<not> canEditDocument d (getUser s userId)"
  proof (cases "getDocument s docId")
    case None
    with c show ?thesis
      by (simp add: submitRoute_def tryCatch_def respond_def returnIO_def)
  next
    case (Some d)
    show ?thesis
    proof (cases "status d = Some DRAFT")
      case False
      with c Some show ?thesis
        by (simp add: submitRoute_def tryCatch_def respond_def returnIO_def)
    next
      case True
      show ?thesis
      proof (cases "canEditDocument d (getUser s userId)")
        case False
        with Some True show ?thesis by simp
      next
        case ce: True
        obtain r s1 where run:
          "bindIO (updateDocument b e docId (noUpdates\<lparr>upd_status := Some IN_REVIEW\<rparr>)) (\<lambda>_.
           bindIO (\<lambda>s1. (Inr (getWorkflow s1 docId), s1)) (\<lambda>workflow.
           bindIO (recordTransition e workflow W_REVIEW
                     \<lparr>h_at = now e, byUid = userId, h_action = ''SUBMIT_FOR_REVIEW'',
                      meta = None\<rparr>) (\<lambda>_.
           bindIO (createReviewTasks b e 0 docId
                     (case workflow of None \<Rightarrow> [] | Some flow \<Rightarrow> w_id flow)
                     (listOf reviewers d)) (\<lambda>_.
           bindIO (createAuditLog b e (genId e (length (listOf reviewers d))) userId
                     ''SUBMIT_FOR_REVIEW'' (''document'', docId) None) (\<lambda>_.
           respond 200 (Message ''Document submitted for review'')))))) s = (r, s1)"
          by (cases rule: prod.exhaust) blast
        have "r = Inr (Response 200 (Message ''Document submitted for review'')) \<or> (\<exists>ex. r = Inl ex)"
          using run
          by (auto simp: bindIO_def respond_def returnIO_def split: prod.splits sum.splits)
        with run Some True ce have "code (fst (submitRoute b e userId docId s)) \<noteq> 403"
          by (auto simp: submitRoute_def tryCatch_def)
        with c show ?thesis by simp
      qed
    qed
  qed
qed

theorem submit_guard_before_authorization_witness:
  "(getDocument exApprovedStore ''doc1'' = Some (exDoc\<lparr>status := Some APPROVED, d_updatedAt := Some 2000\<rparr>)
    \<and> \<not> canEditDocument (exDoc\<lparr>status := Some APPROVED, d_updatedAt := Some 2000\<rparr>)
          (getUser exApprovedStore ''u1'')
    \<and> code (fst (submitRoute MemStorage (exEnv 3000 ''c'') ''u1'' ''doc1'' exApprovedStore)) = 400)
   \<and> (code (fst (submitRoute MemStorage (exEnv 3000 ''c'') ''u1'' ''doc1'' exStore)) = 403
      \<and> getDocument exStore ''doc1'' = Some exDoc \<and> status exDoc = Some DRAFT
      \<and> \<not> canEditDocument exDoc (getUser exStore ''u1''))"
proof -
  have h1: "getDocument exApprovedStore ''doc1''
              = Some (exDoc\<lparr>status := Some APPROVED, d_updatedAt := Some 2000\<rparr>)"
    by code_simp
  have h2: "\<not> canEditDocument (exDoc\<lparr>status := Some APPROVED, d_updatedAt := Some 2000\<rparr>)
               (getUser exApprovedStore ''u1'')"
    by code_simp
  have h3: "getDocument exStore ''doc1'' = Some exDoc"
    by (simp add: getDocument_def exStore_def exDoc_def)
  have h4: "\<not> canEditDocument exDoc (getUser exStore ''u1'')"
    by (simp add: canEditDocument_def getUser_def exStore_def exDoc_def
          exUser_def hasRole_def listOf_def)
  have h5: "status exDoc = Some DRAFT"
    by (simp add: exDoc_def)
  have h6: "code (fst (submitRoute MemStorage (exEnv 3000 ''c'') ''u1'' ''doc1'' exStore)) = 403"
    using h3 h4 h5 by (simp add: submitRoute_def tryCatch_def respond_def returnIO_def)
  from submit_guard_before_authorization
         [of exApprovedStore "''doc1''" MemStorage "exEnv 3000 ''c''" "''u1''"] h1
  have a: "code (fst (submitRoute MemStorage (exEnv 3000 ''c'') ''u1'' ''doc1'' exApprovedStore)) = 400"
    by simp
  from submit_guard_before_authorization
         [of exStore "''doc1''" MemStorage "exEnv 3000 ''c''" "''u1''"] h6 h3
  have b: "status exDoc = Some DRAFT \<and> \<not> canEditDocument exDoc (getUser exStore ''u1'')"
    by simp
  from a b h1 h2 h3 h6 show ?thesis by simp
qed




section \<open>Rejecting a document\<close>

text \<open>
  C4. A reject whose body has no \<^verbatim>\<open>reason\<close>, or an empty one, answers 400
  ``Rejection reason is required'' before it reads or writes anything: the store it
  leaves is the store it found, so the status of every document, the state and history
  of every workflow and the audit log are unchanged.
\<close>

theorem reject_without_reason_unchanged:
  "map_of body ''reason'' = None \<or> map_of body ''reason'' = Some [] \<Longrightarrow>
     rejectRoute b e userId docId body s
       = (Response 400 (Message ''Rejection reason is required''), s)"
  by (auto simp: rejectRoute_def tryCatch_def respond_def returnIO_def orNull_def)

theorem reject_without_reason_unchanged_witness:
  "(map_of [(''reason'', [])] ''reason'' = None \<or> map_of [(''reason'', [])] ''reason'' = Some [])
   \<and> rejectRoute DatabaseStorage (exEnv 3000 ''c'') ''u2'' ''doc1'' [(''reason'', [])] exStore
       = (Response 400 (Message ''Rejection reason is required''), exStore)
   \<and> rejectRoute MemStorage (exEnv 3000 ''c'') ''u2'' ''doc1'' [] exStore
       = (Response 400 (Message ''Rejection reason is required''), exStore)"
proof -
  have h1: "map_of [(''reason'', [])] ''reason'' = None \<or> map_of [(''reason'', [])] ''reason'' = Some []"
    by simp
  have h2: "map_of ([] :: json_object) ''reason'' = None \<or> map_of ([] :: json_object) ''reason'' = Some []"
    by simp
  from h1 reject_without_reason_unchanged [OF h1, of DatabaseStorage "exEnv 3000 ''c''" "''u2''" "''doc1''" exStore]
    reject_without_reason_unchanged [OF h2, of MemStorage "exEnv 3000 ''c''" "''u2''" "''doc1''" exStore]
  show ?thesis by simp
qed

section \<open>Approving a document\<close>

text \<open>
  C1. The approve route has no status guard. In the example the approver \<open>u2\<close>
  approves the submitted document: the route answers 200, the document is
  \<^verbatim>\<open>APPROVED\<close> and the history of its workflow has two entries. A second approve
  by \<open>u2\<close>, on the document that is already \<^verbatim>\<open>APPROVED\<close>, answers 200 again on
  \<^verbatim>\<open>DatabaseStorage\<close> and appends a third entry to the history.
\<close>

theorem approve_of_approved_document_succeeds:
  "fst (approveRoute DatabaseStorage (exEnv 2000 ''b'') ''u2'' ''doc1'' [(''notes'', ''ok'')]
          exSubmittedStore)
     = Response 200 (Message ''Document approved'')
   \<and> getDocument exApprovedStore ''doc1''
     = Some (exDoc\<lparr>status := Some APPROVED, d_updatedAt := Some 2000\<rparr>)
   \<and> map_option w_state (getWorkflow exApprovedStore ''doc1'') = Some (Some W_DONE)
   \<and> map_option history (getWorkflow exApprovedStore ''doc1'')
     = Some (Some [submitEntry (exEnv 1000 ''a'') ''alice'', exFirstApprove])
   \<and> fst (approveRoute DatabaseStorage (exEnv 3000 ''c'') ''u2'' ''doc1'' [(''notes'', ''again'')]
           exApprovedStore)
     = Response 200 (Message ''Document approved'')
   \<and> map_option history
        (getWorkflow (snd (approveRoute DatabaseStorage (exEnv 3000 ''c'') ''u2'' ''doc1''
                             [(''notes'', ''again'')] exApprovedStore)) ''doc1'')
     = Some (Some [submitEntry (exEnv 1000 ''a'') ''alice'', exFirstApprove, exSecondApprove])"
  by code_simp

section \<open>Editing a document\<close>

text \<open>
  C2. The edit route does not ask \<^verbatim>\<open>canEditDocument\<close>. The administrator of the
  example, whom \<^verbatim>\<open>canEditDocument\<close> lets edit the draft, is neither its owner nor
  one of its editors and gets 403 ``Access denied'' from the route, with either
  storage; the store is unchanged.
\<close>

theorem patch_by_admin_is_denied:
  "getUser exStore ''root'' = Some (exUser ''root'' [ADMIN])
   \<and> hasRole (exUser ''root'' [ADMIN]) ADMIN
   \<and> getDocument exStore ''doc1'' = Some exDoc
   \<and> status exDoc = Some DRAFT
   \<and> canEditDocument exDoc (getUser exStore ''root'')
   \<and> patchDocumentRoute DatabaseStorage (exEnv 3000 ''c'') ''root'' ''doc1''
        (Some ''Q3 Report (final)'') None exStore
      = (Response 403 (Message ''Access denied''), exStore)
   \<and> patchDocumentRoute MemStorage (exEnv 3000 ''c'') ''root'' ''doc1''
        (Some ''Q3 Report (final)'') None exStore
      = (Response 403 (Message ''Access denied''), exStore)"
  by code_simp

section \<open>Office sessions\<close>




section \<open>Creating a document\<close>



lemma mem_mapSet: "x \<in> set (mapSet key x xs)"
  by (auto simp: mapSet_def)









section \<open>Version numbers\<close>

lemma decDigit_char_of: "d < 10 \<Longrightarrow> decDigit (char_of (48 + d)) = Some d"
  by (simp add: decDigit_def Let_def)

lemma decimal_digits: "c \<in> set (decimal n) \<Longrightarrow> decDigit c \<noteq> None"
proof (induction n arbitrary: c rule: decimal.induct)
  case (1 n)
  show ?case
  proof (cases "n < 10")
    case True
    with "1.prems" show ?thesis
      by (subst (asm) decimal.simps) (auto simp: decDigit_char_of)
  next
    case False
    with "1.prems" have "c \<in> set (decimal (n div 10)) \<or> c = char_of (48 + n mod 10)"
      by (subst (asm) decimal.simps) auto
    with False "1.IH" show ?thesis
      by (auto simp: decDigit_char_of)
  qed
qed

lemma digitsPrefix_append:
  "\<forall>c \<in> set xs. dv c \<noteq> None \<Longrightarrow>
     digitsPrefix dv (xs @ ys) = digitsPrefix dv xs @ digitsPrefix dv ys"
  by (induction xs) (auto split: option.splits)

lemma digitsValue_snoc: "digitsValue r (ds @ [v]) = digitsValue r ds * r + v"
  by (simp add: digitsValue_def)

lemma digitsPrefix_decimal:
  "digitsPrefix decDigit (decimal n) \<noteq> []
   \<and> digitsValue 10 (digitsPrefix decDigit (decimal n)) = n"
proof (induction n rule: decimal.induct)
  case (1 n)
  show ?case
  proof (cases "n < 10")
    case True
    then have "decimal n = [char_of (48 + n)]"
      by (subst decimal.simps) simp
    with True show ?thesis
      by (simp add: decDigit_char_of digitsValue_def)
  next
    case False
    then have d: "decimal n = decimal (n div 10) @ [char_of (48 + n mod 10)]"
      by (subst decimal.simps) simp
    have p: "digitsPrefix decDigit (decimal n)
               = digitsPrefix decDigit (decimal (n div 10)) @ [n mod 10]"
      unfolding d
      by (subst digitsPrefix_append) (auto simp: decimal_digits decDigit_char_of)
    from False "1.IH" show ?thesis
      unfolding p by (simp add: digitsValue_snoc)
  qed
qed

lemma digit_char_properties:
  assumes "decDigit c \<noteq> None"
  shows "\<not> isWhiteSpace c" "c \<noteq> CHR ''-''" "c \<noteq> CHR ''+''" "c \<noteq> CHR ''x''"
    "c \<noteq> CHR ''X''" "c \<noteq> CHR ''.''"
  using assms
  by (auto simp: decDigit_def isWhiteSpace_def Let_def split: if_splits)

lemma parseInt_decimal: "parseInt (decimal n) = Some (int n)"
proof -
  from digitsPrefix_decimal [of n] obtain c cs where cs: "decimal n = c # cs"
    by (cases "decimal n") auto
  have dig: "\<And>x. x \<in> set (c # cs) \<Longrightarrow> decDigit x \<noteq> None"
    using decimal_digits [of _ n] cs by simp
  have c: "\<not> isWhiteSpace c" "c \<noteq> CHR ''-''" "c \<noteq> CHR ''+''"
    using digit_char_properties [OF dig [of c]] by simp_all
  have hex: "(case cs of [] \<Rightarrow> False
              | x # _ \<Rightarrow> c = CHR ''0'' \<and> (x = CHR ''x'' \<or> x = CHR ''X'')) = False"
  proof (cases cs)
    case Nil
    then show ?thesis by simp
  next
    case (Cons x rest)
    with digit_char_properties [OF dig [of x]] show ?thesis by simp
  qed
  from digitsPrefix_decimal [of n] have
    ne: "digitsPrefix decDigit (c # cs) \<noteq> []"
    and v: "digitsValue 10 (digitsPrefix decDigit (c # cs)) = n"
    unfolding cs by simp_all
  have "parseInt (c # cs) = Some (int n)"
    using c hex ne v
    by (simp add: parseInt_def Let_def del: digitsPrefix.simps)
  then show ?thesis by (simp add: cs)
qed

lemma takeWhile_decimal:
  "takeWhile (\<lambda>c. c \<noteq> CHR ''.'') (decimal n @ CHR ''.'' # frac) = decimal n"
proof -
  have "\<And>x. x \<in> set (decimal n) \<Longrightarrow> x \<noteq> CHR ''.''"
    using decimal_digits digit_char_properties(6) by blast
  then show ?thesis
    by (simp add: takeWhile_append2)
qed

lemma newVersionNumber_next:
  assumes "versionNumber latest = decimal n @ CHR ''.'' # frac"
  shows "newVersionNumber (latest # rest) = decimal (n + 1) @ ''.0''"
proof -
  have "nat (int n + 1) = n + 1"
    by simp
  then show ?thesis
    by (simp add: newVersionNumber_def assms takeWhile_decimal parseInt_decimal
          numberToString_def)
qed

lemma createdDesc_head:
  assumes "createdDesc b created xs = y # ys"
    and "x \<in> set ys" and "created y = Some t" and "created x = Some t'"
  shows "t' \<le> t"
proof -
  define key where "key = (\<lambda>x. - (case created x of None \<Rightarrow> (0::int) | Some t \<Rightarrow> t))"
  have sorted_head: "t' \<le> t" if "sort_key key zs = y # ys" for zs
  proof -
    have "sorted (map key (sort_key key zs))"
      by (rule sorted_sort_key)
    with that assms(2) have "key y \<le> key x"
      by auto
    with assms(3,4) show ?thesis
      by (simp add: key_def)
  qed
  show ?thesis
  proof (cases b)
    case MemStorage
    with assms(1) have "sort_key key xs = y # ys"
      by (simp add: createdDesc_def key_def)
    then show ?thesis by (rule sorted_head)
  next
    case DatabaseStorage
    with assms(1) have app:
      "filter (\<lambda>x. created x = None) xs @ sort_key key (filter (\<lambda>x. created x \<noteq> None) xs)
         = y # ys"
      by (simp add: createdDesc_def key_def)
    show ?thesis
    proof (cases "filter (\<lambda>x. created x = None) xs")
      case Nil
      with app have "sort_key key (filter (\<lambda>x. created x \<noteq> None) xs) = y # ys"
        by simp
      then show ?thesis by (rule sorted_head)
    next
      case (Cons z zs)
      with app have "y = z" by simp
      moreover from Cons have "z \<in> set (filter (\<lambda>x. created x = None) xs)"
        by simp
      ultimately have "created y = None" by simp
      with assms(3) show ?thesis by simp
    qed
  qed
qed

lemma upload_success_state:
  assumes ok: "uploadVersionRoute b e userId docId file summary s
                 = (Response 201 (VersionJson v), s')"
  shows "versionNumber v = newVersionNumber (getDocumentVersions b s docId)
         \<and> v_docId v = docId \<and> v \<in> set (documentVersions s')"
proof -
  from ok obtain f where f: "file = Some f"
    by (cases "file") (auto simp: uploadVersionRoute_def tryCatch_def respond_def returnIO_def)
  from ok f obtain d where d: "getDocument s docId = Some d"
    by (cases "getDocument s docId")
       (auto simp: uploadVersionRoute_def tryCatch_def respond_def returnIO_def)
  from ok f d have ce: "canEditDocument d (getUser s userId)"
    by (auto simp: uploadVersionRoute_def tryCatch_def respond_def returnIO_def split: if_splits)
  from ok f d ce have fs: "fsOk e"
    by (auto simp: uploadVersionRoute_def tryCatch_def throwIO_def split: if_splits)
  define iv where "iv =
    \<lparr>iv_docId = docId, iv_versionNumber = newVersionNumber (getDocumentVersions b s docId),
     iv_storagePath = pathJoin e [''storage'', ''documents'', docId,
                         numberToString (Some (now e)) @ ''-'' @ originalname f],
     iv_createdBy = userId, iv_fileName = originalname f, iv_fileSize = f_size f,
     iv_mimeType = mimetype f,
     iv_changeSummary = orElse summary ''New version uploaded''\<rparr>"
  from ok f d ce fs obtain ver s1 doc s2 l where
    cv: "createDocumentVersion b e (genId e 0) iv s = (Inr ver, s1)"
    and ud: "updateDocument b e docId (noUpdates\<lparr>upd_currentVersionId := Some (v_id ver)\<rparr>) s1
               = (Inr doc, s2)"
    and ca: "createAuditLog b e (genId e 1) userId ''VERSION_UPLOADED'' (''document'', docId)
               (Some [(''versionId'', v_id ver),
                      (''versionNumber'', newVersionNumber (getDocumentVersions b s docId))]) s2
               = (Inr l, s')"
    and v: "v = ver"
    by (auto simp: uploadVersionRoute_def tryCatch_def bindIO_def respond_def returnIO_def
          Let_def iv_def split: sum.splits prod.splits)
  from ud have b: "b = DatabaseStorage"
    by (cases b) (simp_all add: updateDocument_Mem)
  from cv b have ver: "versionNumber ver = newVersionNumber (getDocumentVersions b s docId)"
    "v_docId ver = docId" "ver \<in> set (documentVersions s1)"
    by (auto simp: createDocumentVersion_def Let_def iv_def split: if_splits)
  from ud b have "documentVersions s2 = documentVersions s1"
    by (auto simp: updateDocument_DB updatedDocuments_def)
  moreover from ca b have "documentVersions s' = documentVersions s2"
    by (auto dest: createAuditLog_DB)
  ultimately show ?thesis
    using ver v by simp
qed

lemma set_mapSet: "set (mapSet key x xs) \<subseteq> insert x (set xs)"
  by (auto simp: mapSet_def)

lemma upload_tail_versions:
  assumes "tryCatch msg
             (bindIO (updateDocument b e docId upd) (\<lambda>_.
              bindIO (createAuditLog b e newId actor act tgt md) (\<lambda>_. respond c p))) s1
           = (r, s')"
  shows "documentVersions s' = documentVersions s1"
proof (cases b)
  case MemStorage
  with assms show ?thesis
    by (auto simp: tryCatch_def bindIO_def updateDocument_Mem)
next
  case DatabaseStorage
  with assms show ?thesis
    by (auto simp: tryCatch_def bindIO_def updateDocument_DB updatedDocuments_def
          createAuditLog_def respond_def returnIO_def Let_def split: if_splits)
qed

lemma createDocumentVersion_result:
  assumes "createDocumentVersion b e newId iv s = (Inr ver, s1)"
  shows "versionNumber ver = iv_versionNumber iv \<and> v_docId ver = iv_docId iv
         \<and> ver \<in> set (documentVersions s1)
         \<and> set (documentVersions s1) \<subseteq> insert ver (set (documentVersions s))"
proof (cases b)
  case MemStorage
  with assms have "documentVersions s1 = mapSet v_id ver (documentVersions s)"
    and "versionNumber ver = iv_versionNumber iv \<and> v_docId ver = iv_docId iv"
    by (auto simp: createDocumentVersion_def Let_def)
  then show ?thesis
    using set_mapSet [of v_id ver "documentVersions s"] mem_mapSet [of ver v_id "documentVersions s"]
    by simp
next
  case DatabaseStorage
  with assms show ?thesis
    by (auto simp: createDocumentVersion_def Let_def split: if_splits)
qed

lemma upload_added_version:
  assumes run: "uploadVersionRoute b e userId docId file summary s = (r, s')"
    and v: "v \<in> set (documentVersions s')" and nv: "v \<notin> set (documentVersions s)"
  shows "versionNumber v = newVersionNumber (getDocumentVersions b s docId) \<and> v_docId v = docId"
proof -
  from v nv have changed: "s' \<noteq> s"
    by auto
  from run changed obtain f where f: "file = Some f"
    by (cases "file") (auto simp: uploadVersionRoute_def tryCatch_def respond_def returnIO_def)
  from run changed f obtain d where d: "getDocument s docId = Some d"
    by (cases "getDocument s docId")
       (auto simp: uploadVersionRoute_def tryCatch_def respond_def returnIO_def)
  from run changed f d have ce: "canEditDocument d (getUser s userId)"
    by (auto simp: uploadVersionRoute_def tryCatch_def respond_def returnIO_def split: if_splits)
  from run changed f d ce have fs: "fsOk e"
    by (auto simp: uploadVersionRoute_def tryCatch_def throwIO_def split: if_splits)
  define number where "number = newVersionNumber (getDocumentVersions b s docId)"
  define iv where "iv =
    \<lparr>iv_docId = docId, iv_versionNumber = number,
     iv_storagePath = pathJoin e [''storage'', ''documents'', docId,
                         numberToString (Some (now e)) @ ''-'' @ originalname f],
     iv_createdBy = userId, iv_fileName = originalname f, iv_fileSize = f_size f,
     iv_mimeType = mimetype f,
     iv_changeSummary = orElse summary ''New version uploaded''\<rparr>"
  from run f d ce fs have run':
    "tryCatch ''Failed to upload version''
       (bindIO (createDocumentVersion b e (genId e 0) iv) (\<lambda>version.
        bindIO (updateDocument b e docId
                  (noUpdates\<lparr>upd_currentVersionId := Some (v_id version)\<rparr>)) (\<lambda>_.
        bindIO (createAuditLog b e (genId e 1) userId ''VERSION_UPLOADED'' (''document'', docId)
                  (Some [(''versionId'', v_id version), (''versionNumber'', number)])) (\<lambda>_.
        respond 201 (VersionJson version))))) s = (r, s')"
    by (simp add: uploadVersionRoute_def Let_def iv_def number_def)
  obtain x s1 where cv: "createDocumentVersion b e (genId e 0) iv s = (x, s1)"
    by (cases "createDocumentVersion b e (genId e 0) iv s") blast
  show ?thesis
  proof (cases x)
    case (Inl ex)
    with cv have "s1 = s"
      by (cases b) (auto simp: createDocumentVersion_def Let_def split: if_splits)
    with run' cv Inl changed show ?thesis
      by (simp add: tryCatch_def bindIO_def)
  next
    case (Inr ver)
    with run' cv have
      "tryCatch ''Failed to upload version''
         (bindIO (updateDocument b e docId
                    (noUpdates\<lparr>upd_currentVersionId := Some (v_id ver)\<rparr>)) (\<lambda>_.
          bindIO (createAuditLog b e (genId e 1) userId ''VERSION_UPLOADED'' (''document'', docId)
                    (Some [(''versionId'', v_id ver), (''versionNumber'', number)])) (\<lambda>_.
          respond 201 (VersionJson ver)))) s1 = (r, s')"
      by (simp add: tryCatch_def bindIO_def)
    then have same: "documentVersions s' = documentVersions s1"
      by (rule upload_tail_versions)
    from cv Inr have res: "versionNumber ver = iv_versionNumber iv \<and> v_docId ver = iv_docId iv
         \<and> ver \<in> set (documentVersions s1)
         \<and> set (documentVersions s1) \<subseteq> insert ver (set (documentVersions s))"
      by (simp add: createDocumentVersion_result)
    with v nv same have "v = ver"
      by auto
    with res show ?thesis
      by (simp add: iv_def number_def)
  qed
qed

lemma mset_createdDesc: "mset (createdDesc b created xs) = mset xs"
proof (cases b)
  case MemStorage
  then show ?thesis
    by (simp add: createdDesc_def)
next
  case DatabaseStorage
  have "mset (filter (\<lambda>x. created x = None) xs) + mset (filter (\<lambda>x. created x \<noteq> None) xs)
          = mset xs"
    by (induction xs) auto
  with DatabaseStorage show ?thesis
    by (simp add: createdDesc_def)
qed

text \<open>
  \<^verbatim>\<open>getDocumentVersions\<close> returns the versions of the document that the store holds,
  each as often as the store holds it.
\<close>

lemma mset_getDocumentVersions:
  "mset (getDocumentVersions b s docId)
     = mset (filter (\<lambda>x. v_docId x = docId) (documentVersions s))"
  by (simp add: getDocumentVersions_def mset_createdDesc)

lemma mem_getDocumentVersions:
  "x \<in> set (getDocumentVersions b s docId)
     \<longleftrightarrow> x \<in> set (documentVersions s) \<and> v_docId x = docId"
proof -
  have "set (getDocumentVersions b s docId)
          = set (filter (\<lambda>x. v_docId x = docId) (documentVersions s))"
    using mset_getDocumentVersions by (rule mset_eq_setD)
  then show ?thesis
    by simp
qed

lemma notAfter_head:
  assumes g: "getDocumentVersions b s docId = latest # rest"
    and x: "x \<in> set (latest # rest)"
  shows "notAfter x latest"
proof (cases "x = latest")
  case True
  then show ?thesis
    by (simp add: notAfter_def split: option.splits)
next
  case False
  with x have xr: "x \<in> set rest"
    by simp
  show ?thesis
  proof (cases "v_createdAt x")
    case None
    then show ?thesis by (simp add: notAfter_def)
  next
    case sx: (Some t')
    show ?thesis
    proof (cases "v_createdAt latest")
      case None
      then show ?thesis by (simp add: notAfter_def split: option.splits)
    next
      case (Some t)
      from g have "createdDesc b v_createdAt
                     (filter (\<lambda>v. v_docId v = docId) (documentVersions s)) = latest # rest"
        by (simp add: getDocumentVersions_def)
      from createdDesc_head [OF this xr Some sx] Some sx show ?thesis
        by (simp add: notAfter_def)
    qed
  qed
qed

text \<open>
  C8. Take the version that an upload returns with 201, or any version that is in the
  store after an upload and was not before (on \<^verbatim>\<open>MemStorage\<close> the route creates
  the version and then answers 500). It is in the store and belongs to the document.
  \<^verbatim>\<open>getDocumentVersions\<close> returned the versions that the store held for the document,
  and no other. When the store held no version of the document, the number of the new
  version is \<^verbatim>\<open>1.0\<close>. Otherwise the first version returned is a version of the
  document in the store and the most recent of them: no version of the document in
  the store has a later \<^verbatim>\<open>createdAt\<close>. The new number is what JavaScript prints for
  \<^verbatim>\<open>parseInt\<close> of the part of its number before the first dot, plus one, followed by
  \<^verbatim>\<open>.0\<close>; so when the number of that version has the integer part \<open>n\<close> (below
  \<open>2^53\<close>, where the numbers of JavaScript are exact), the new number is \<open>n + 1\<close>
  followed by \<^verbatim>\<open>.0\<close>.
\<close>

theorem upload_version_number:
  assumes run: "uploadVersionRoute b e userId docId file summary s = (r, s')"
    and added: "r = Response 201 (VersionJson v)
                \<or> (v \<in> set (documentVersions s') \<and> v \<notin> set (documentVersions s))"
  shows "v \<in> set (documentVersions s') \<and> v_docId v = docId
    \<and> mset (getDocumentVersions b s docId)
        = mset (filter (\<lambda>x. v_docId x = docId) (documentVersions s))
    \<and> ((\<forall>x \<in> set (documentVersions s). v_docId x \<noteq> docId) \<longrightarrow> versionNumber v = ''1.0'')
    \<and> ((\<exists>x \<in> set (documentVersions s). v_docId x = docId) \<longrightarrow>
         (\<exists>latest rest. getDocumentVersions b s docId = latest # rest
            \<and> latest \<in> set (documentVersions s) \<and> v_docId latest = docId
            \<and> (\<forall>x \<in> set (documentVersions s). v_docId x = docId \<longrightarrow> notAfter x latest)
            \<and> versionNumber v =
                numberToString
                  (map_option (\<lambda>n. n + 1)
                     (parseInt (takeWhile (\<lambda>c. c \<noteq> CHR ''.'') (versionNumber latest))))
                @ ''.0''
            \<and> (\<forall>n frac. versionNumber latest = decimal n @ CHR ''.'' # frac \<and> n < 2 ^ 53
                  \<longrightarrow> versionNumber v = decimal (n + 1) @ ''.0'')))"
proof -
  from added
  have st: "versionNumber v = newVersionNumber (getDocumentVersions b s docId)
            \<and> v_docId v = docId \<and> v \<in> set (documentVersions s')"
  proof
    assume "r = Response 201 (VersionJson v)"
    with run show ?thesis
      by (simp add: upload_success_state)
  next
    assume "v \<in> set (documentVersions s') \<and> v \<notin> set (documentVersions s)"
    with upload_added_version [OF run] show ?thesis
      by simp
  qed
  note vs = mem_getDocumentVersions [of _ b s docId]
  have first: "versionNumber v = ''1.0''"
    if none: "\<forall>x \<in> set (documentVersions s). v_docId x \<noteq> docId"
  proof -
    have "getDocumentVersions b s docId = []"
    proof (cases "getDocumentVersions b s docId")
      case Nil
      then show ?thesis .
    next
      case (Cons y ys)
      then have "y \<in> set (getDocumentVersions b s docId)"
        by simp
      then have "y \<in> set (documentVersions s) \<and> v_docId y = docId"
        by (simp only: vs)
      with none show ?thesis
        by blast
    qed
    with st show ?thesis
      by (simp add: newVersionNumber_def)
  qed
  have later: "\<exists>latest rest. getDocumentVersions b s docId = latest # rest
            \<and> latest \<in> set (documentVersions s) \<and> v_docId latest = docId
            \<and> (\<forall>x \<in> set (documentVersions s). v_docId x = docId \<longrightarrow> notAfter x latest)
            \<and> versionNumber v =
                numberToString
                  (map_option (\<lambda>n. n + 1)
                     (parseInt (takeWhile (\<lambda>c. c \<noteq> CHR ''.'') (versionNumber latest))))
                @ ''.0''
            \<and> (\<forall>n frac. versionNumber latest = decimal n @ CHR ''.'' # frac \<and> n < 2 ^ 53
                  \<longrightarrow> versionNumber v = decimal (n + 1) @ ''.0'')"
    if some: "\<exists>x \<in> set (documentVersions s). v_docId x = docId"
  proof -
    from some obtain y where "y \<in> set (documentVersions s) \<and> v_docId y = docId"
      by blast
    then have "y \<in> set (getDocumentVersions b s docId)"
      by (simp only: vs)
    then obtain latest rest where g: "getDocumentVersions b s docId = latest # rest"
      by (cases "getDocumentVersions b s docId") simp_all
    then have "latest \<in> set (getDocumentVersions b s docId)"
      by simp
    then have "latest \<in> set (documentVersions s) \<and> v_docId latest = docId"
      by (simp only: vs)
    then have mem: "latest \<in> set (documentVersions s)" and doc: "v_docId latest = docId"
      by simp_all
    have recent: "\<forall>x \<in> set (documentVersions s). v_docId x = docId \<longrightarrow> notAfter x latest"
    proof (intro ballI impI)
      fix x
      assume "x \<in> set (documentVersions s)" and "v_docId x = docId"
      then have "x \<in> set (getDocumentVersions b s docId)"
        by (simp only: vs)
      then have "x \<in> set (latest # rest)"
        by (simp only: g)
      with g show "notAfter x latest"
        by (rule notAfter_head)
    qed
    from st g have num: "versionNumber v =
                numberToString
                  (map_option (\<lambda>n. n + 1)
                     (parseInt (takeWhile (\<lambda>c. c \<noteq> CHR ''.'') (versionNumber latest))))
                @ ''.0''"
      by (simp add: newVersionNumber_def)
    have nxt: "\<forall>n frac. versionNumber latest = decimal n @ CHR ''.'' # frac \<and> n < 2 ^ 53
                  \<longrightarrow> versionNumber v = decimal (n + 1) @ ''.0''"
    proof (intro allI impI)
      fix n frac
      assume "versionNumber latest = decimal n @ CHR ''.'' # frac \<and> n < 2 ^ 53"
      then have "newVersionNumber (latest # rest) = decimal (n + 1) @ ''.0''"
        by (simp add: newVersionNumber_next)
      with st g show "versionNumber v = decimal (n + 1) @ ''.0''"
        by simp
    qed
    show ?thesis
    proof (rule exI [of _ latest], rule exI [of _ rest], intro conjI)
      show "getDocumentVersions b s docId = latest # rest" by (rule g)
      show "latest \<in> set (documentVersions s)" by (rule mem)
      show "v_docId latest = docId" by (rule doc)
      show "\<forall>x \<in> set (documentVersions s). v_docId x = docId \<longrightarrow> notAfter x latest"
        by (rule recent)
      show "versionNumber v =
                numberToString
                  (map_option (\<lambda>n. n + 1)
                     (parseInt (takeWhile (\<lambda>c. c \<noteq> CHR ''.'') (versionNumber latest))))
                @ ''.0''" by (rule num)
      show "\<forall>n frac. versionNumber latest = decimal n @ CHR ''.'' # frac \<and> n < 2 ^ 53
                  \<longrightarrow> versionNumber v = decimal (n + 1) @ ''.0''" by (rule nxt)
    qed
  qed
  show ?thesis
  proof (intro conjI impI)
    show "v \<in> set (documentVersions s')" using st by simp
    show "v_docId v = docId" using st by simp
    show "mset (getDocumentVersions b s docId)
        = mset (filter (\<lambda>x. v_docId x = docId) (documentVersions s))"
      by (rule mset_getDocumentVersions)
    show "versionNumber v = ''1.0''"
      if "\<forall>x \<in> set (documentVersions s). v_docId x \<noteq> docId"
      using that by (rule first)
    show "\<exists>latest rest. getDocumentVersions b s docId = latest # rest
            \<and> latest \<in> set (documentVersions s) \<and> v_docId latest = docId
            \<and> (\<forall>x \<in> set (documentVersions s). v_docId x = docId \<longrightarrow> notAfter x latest)
            \<and> versionNumber v =
                numberToString
                  (map_option (\<lambda>n. n + 1)
                     (parseInt (takeWhile (\<lambda>c. c \<noteq> CHR ''.'') (versionNumber latest))))
                @ ''.0''
            \<and> (\<forall>n frac. versionNumber latest = decimal n @ CHR ''.'' # frac \<and> n < 2 ^ 53
                  \<longrightarrow> versionNumber v = decimal (n + 1) @ ''.0'')"
      if "\<exists>x \<in> set (documentVersions s). v_docId x = docId"
      using that by (rule later)
  qed
qed

theorem upload_version_number_witness:
  "uploadVersionRoute DatabaseStorage (exEnv 1000 ''a'') ''alice'' ''doc1'' (Some exFile) None
     exTwoStore
     = (Response 201 (VersionJson exVersion1), exStoreV1)
   \<and> documentVersions exTwoStore = []
   \<and> versionNumber exVersion1 = ''1.0''
   \<and> documentVersions exStoreV1 = [exVersion1]
   \<and> v_docId exVersion1 = ''doc1''
   \<and> uploadVersionRoute DatabaseStorage (exEnv 3000 ''c'') ''alice'' ''doc2'' (Some exFile) None
        exStoreV1
     = (Response 201 (VersionJson exVersion3),
        snd (uploadVersionRoute DatabaseStorage (exEnv 3000 ''c'') ''alice'' ''doc2'' (Some exFile)
               None exStoreV1))
   \<and> v_docId exVersion3 = ''doc2''
   \<and> versionNumber exVersion3 = ''1.0''
   \<and> uploadVersionRoute DatabaseStorage (exEnv 2000 ''b'') ''alice'' ''doc1'' (Some exFile) None
        exStoreV1
     = (Response 201 (VersionJson exVersion2),
        snd (uploadVersionRoute DatabaseStorage (exEnv 2000 ''b'') ''alice'' ''doc1'' (Some exFile)
               None exStoreV1))
   \<and> versionNumber exVersion1 = decimal 1 @ CHR ''.'' # ''0''
   \<and> versionNumber exVersion2 = ''2.0''
   \<and> exVersion2 \<in> set (documentVersions
        (snd (uploadVersionRoute DatabaseStorage (exEnv 2000 ''b'') ''alice'' ''doc1'' (Some exFile)
                None exStoreV1)))
   \<and> fst (uploadVersionRoute MemStorage (exEnv 1000 ''a'') ''alice'' ''doc1'' (Some exFile) None
             exTwoStore)
       = Response 500 (Message ''Failed to upload version'')
   \<and> exVersion1 \<in> set (documentVersions
        (snd (uploadVersionRoute MemStorage (exEnv 1000 ''a'') ''alice'' ''doc1'' (Some exFile)
                None exTwoStore)))
   \<and> exVersion1 \<notin> set (documentVersions exTwoStore)"
proof -
  have r1: "fst (uploadVersionRoute DatabaseStorage (exEnv 1000 ''a'') ''alice'' ''doc1''
                   (Some exFile) None exTwoStore) = Response 201 (VersionJson exVersion1)"
    by code_simp
  then have h1: "uploadVersionRoute DatabaseStorage (exEnv 1000 ''a'') ''alice'' ''doc1''
                   (Some exFile) None exTwoStore
                 = (Response 201 (VersionJson exVersion1), exStoreV1)"
    unfolding exStoreV1_def by (metis prod.collapse)
  have g1: "documentVersions exTwoStore = []"
    by (simp add: exTwoStore_def exStore_def)
  have g2: "documentVersions exStoreV1 = [exVersion1]"
    by code_simp
  have d1: "v_docId exVersion1 = ''doc1''"
    by (simp add: exVersion1_def)
  have r2: "fst (uploadVersionRoute DatabaseStorage (exEnv 2000 ''b'') ''alice'' ''doc1''
                   (Some exFile) None exStoreV1) = Response 201 (VersionJson exVersion2)"
    by code_simp
  then have h2: "uploadVersionRoute DatabaseStorage (exEnv 2000 ''b'') ''alice'' ''doc1''
                   (Some exFile) None exStoreV1
     = (Response 201 (VersionJson exVersion2),
        snd (uploadVersionRoute DatabaseStorage (exEnv 2000 ''b'') ''alice'' ''doc1'' (Some exFile)
               None exStoreV1))"
    by (metis prod.collapse)
  have r4: "fst (uploadVersionRoute DatabaseStorage (exEnv 3000 ''c'') ''alice'' ''doc2''
                   (Some exFile) None exStoreV1) = Response 201 (VersionJson exVersion3)"
    by code_simp
  then have h4: "uploadVersionRoute DatabaseStorage (exEnv 3000 ''c'') ''alice'' ''doc2''
                   (Some exFile) None exStoreV1
     = (Response 201 (VersionJson exVersion3),
        snd (uploadVersionRoute DatabaseStorage (exEnv 3000 ''c'') ''alice'' ''doc2'' (Some exFile)
               None exStoreV1))"
    by (metis prod.collapse)
  have n1: "versionNumber exVersion1 = decimal 1 @ CHR ''.'' # ''0''"
    by code_simp
  have d2: "decimal (1 + 1) @ ''.0'' = ''2.0''"
    by code_simp
  have small: "(1 :: nat) < 2 ^ 53"
    by simp
  have r3: "fst (uploadVersionRoute MemStorage (exEnv 1000 ''a'') ''alice'' ''doc1'' (Some exFile)
                   None exTwoStore) = Response 500 (Message ''Failed to upload version'')"
    by code_simp
  then have h3: "uploadVersionRoute MemStorage (exEnv 1000 ''a'') ''alice'' ''doc1'' (Some exFile)
                   None exTwoStore
     = (Response 500 (Message ''Failed to upload version''),
        snd (uploadVersionRoute MemStorage (exEnv 1000 ''a'') ''alice'' ''doc1'' (Some exFile)
               None exTwoStore))"
    by (metis prod.collapse)
  have m3: "exVersion1 \<in> set (documentVersions
        (snd (uploadVersionRoute MemStorage (exEnv 1000 ''a'') ''alice'' ''doc1'' (Some exFile)
                None exTwoStore)))"
    by code_simp
  have o3: "exVersion1 \<notin> set (documentVersions exTwoStore)"
    by (simp add: g1)
  have ok1: "Response 201 (VersionJson exVersion1) = Response 201 (VersionJson exVersion1)
             \<or> (exVersion1 \<in> set (documentVersions exStoreV1)
                 \<and> exVersion1 \<notin> set (documentVersions exTwoStore))"
    by simp
  have ok2: "Response 201 (VersionJson exVersion2) = Response 201 (VersionJson exVersion2)
             \<or> (exVersion2 \<in> set (documentVersions
                   (snd (uploadVersionRoute DatabaseStorage (exEnv 2000 ''b'') ''alice'' ''doc1''
                           (Some exFile) None exStoreV1)))
                 \<and> exVersion2 \<notin> set (documentVersions exStoreV1))"
    by simp
  have ok4: "Response 201 (VersionJson exVersion3) = Response 201 (VersionJson exVersion3)
             \<or> (exVersion3 \<in> set (documentVersions
                   (snd (uploadVersionRoute DatabaseStorage (exEnv 3000 ''c'') ''alice'' ''doc2''
                           (Some exFile) None exStoreV1)))
                 \<and> exVersion3 \<notin> set (documentVersions exStoreV1))"
    by simp
  from upload_version_number [OF h1 ok1] g1 have a: "versionNumber exVersion1 = ''1.0''"
    by simp
  have no2: "\<forall>x \<in> set (documentVersions exStoreV1). v_docId x \<noteq> ''doc2''"
    by (simp add: g2 d1)
  from upload_version_number [OF h4 ok4] no2
  have e: "v_docId exVersion3 = ''doc2''" and f: "versionNumber exVersion3 = ''1.0''"
    by blast+
  have some1: "\<exists>x \<in> set (documentVersions exStoreV1). v_docId x = ''doc1''"
    by (simp add: g2 d1)
  from upload_version_number [OF h2 ok2] some1 obtain latest where
    l: "latest \<in> set (documentVersions exStoreV1)"
    and nx: "\<forall>n frac. versionNumber latest = decimal n @ CHR ''.'' # frac \<and> n < 2 ^ 53
                  \<longrightarrow> versionNumber exVersion2 = decimal (n + 1) @ ''.0''"
    by blast
  from l g2 have "latest = exVersion1"
    by simp
  with nx n1 small have "versionNumber exVersion2 = decimal (1 + 1) @ ''.0''"
    by blast
  with d2 have b: "versionNumber exVersion2 = ''2.0''"
    by simp
  from upload_version_number [OF h2 ok2]
  have c: "exVersion2 \<in> set (documentVersions
        (snd (uploadVersionRoute DatabaseStorage (exEnv 2000 ''b'') ''alice'' ''doc1'' (Some exFile)
                None exStoreV1)))"
    by blast
  from m3 o3 have ok3:
    "Response 500 (Message ''Failed to upload version'') = Response 201 (VersionJson exVersion1)
     \<or> (exVersion1 \<in> set (documentVersions
            (snd (uploadVersionRoute MemStorage (exEnv 1000 ''a'') ''alice'' ''doc1''
                    (Some exFile) None exTwoStore)))
         \<and> exVersion1 \<notin> set (documentVersions exTwoStore))"
    by simp
  from upload_version_number [OF h3 ok3] have d: "v_docId exVersion1 = ''doc1''"
    by blast
  from h1 g1 a g2 d h4 e f h2 n1 b c r3 m3 o3 show ?thesis
    by (intro conjI)
qed

end
